theory Spec2Isabelle
  imports Complex_Main "HOL-Library.AList" "HOL-Library.Sublist"
begin

section \<open>Python values and errors\<close>

text \<open>
  Exceptions of the Python source are values of \<open>py_error\<close>; a call that may raise returns
  \<open>py_error + 'a\<close> with \<open>Inl\<close> for the exception.  \<open>ServiceUnavailable\<close> is the error
  named by the specification; no function of the source raises it.  Float scores and
  weights are modelled as real numbers (no rounding, no underflow, no NaN); a score array
  passed to \<open>HybridScorer\<close> carries its element type.
\<close>

datatype py_error = IndexError | KeyError | TypeError | RuntimeError | ServiceUnavailable

section \<open>core/config.py: Settings\<close>

record Settings =
  tfidf_weight :: real
  embedding_weight :: real

text \<open>The class defaults of \<open>Settings\<close> (lines 24-25); the environment may override them.\<close>

definition settings :: Settings where
  "settings = \<lparr>tfidf_weight = 4 / 10, embedding_weight = 6 / 10\<rparr>"

section \<open>utils/similarity.py: HybridScorer\<close>

record HybridScorer =
  self_tfidf_weight :: real
  self_embedding_weight :: real
  normalize_scores :: bool

text \<open>
  Python's \<open>x or d\<close> on an optional float: \<open>None\<close> and \<open>0.0\<close> are both falsy, so both
  give \<open>d\<close>.
\<close>

definition py_or :: "real option \<Rightarrow> real \<Rightarrow> real" where
  "py_or x d = (case x of None \<Rightarrow> d | Some v \<Rightarrow> (if v = 0 then d else v))"

text \<open>
  \<open>HybridScorer.__init__\<close> (lines 34-46), with the settings object as a parameter.  The
  weights are real numbers: the divisions are exact, without the rounding and the underflow
  of doubles.
\<close>

definition HybridScorer_init :: "Settings \<Rightarrow> real option \<Rightarrow> real option \<Rightarrow> bool \<Rightarrow> HybridScorer" where
  "HybridScorer_init cfg tw ew ns =
     (let t = py_or tw (tfidf_weight cfg);
          e = py_or ew (embedding_weight cfg);
          total_weight = t + e
      in if total_weight > 0
         then \<lparr>self_tfidf_weight = t / total_weight,
               self_embedding_weight = e / total_weight,
               normalize_scores = ns\<rparr>
         else \<lparr>self_tfidf_weight = 1 / 2,
               self_embedding_weight = 1 / 2,
               normalize_scores = ns\<rparr>)"

text \<open>\<open>create_hybrid_scorer\<close> (lines 199-216): \<open>normalize_scores\<close> keeps its default.\<close>

definition create_hybrid_scorer :: "Settings \<Rightarrow> real option \<Rightarrow> real option \<Rightarrow> HybridScorer" where
  "create_hybrid_scorer cfg tw ew = HybridScorer_init cfg tw ew True"

text \<open>
  A NumPy score array with its element type.  Similarity scores are \<open>float64\<close> arrays, but
  the parameters of \<open>HybridScorer\<close> are typed \<open>np.ndarray\<close> and nothing converts them, so an
  integer array is a possible argument.  Integers are unbounded here (no \<open>int64\<close>
  wrap-around), floats are real numbers.
\<close>

datatype ndarray = IntArray "int list" | FloatArray "real list"

fun array_len :: "ndarray \<Rightarrow> nat" where
  "array_len (IntArray xs) = length xs"
| "array_len (FloatArray xs) = length xs"

text \<open>\<open>scores[:n]\<close> for \<open>n \<ge> 0\<close>.\<close>

fun array_take :: "nat \<Rightarrow> ndarray \<Rightarrow> ndarray" where
  "array_take n (IntArray xs) = IntArray (take n xs)"
| "array_take n (FloatArray xs) = FloatArray (take n xs)"

text \<open>The elements as floats, as in \<open>weight * scores\<close> with a float weight.\<close>

fun as_floats :: "ndarray \<Rightarrow> real list" where
  "as_floats (IntArray xs) = map real_of_int xs"
| "as_floats (FloatArray xs) = xs"

text \<open>
  \<open>normalize_score_array\<close> (lines 50-70).  \<open>np.min\<close> and \<open>np.max\<close> are only reached on a
  non-empty array.  \<open>np.full_like(scores, 0.5)\<close> has the length and the element type of
  \<open>scores\<close>: on an integer array the fill value 0.5 is stored as the integer 0.  The
  division \<open>(scores - min_score) / (max_score - min_score)\<close> is a true division and gives a
  float array for either element type.
\<close>

fun normalize_score_array :: "ndarray \<Rightarrow> ndarray" where
  "normalize_score_array (FloatArray scores) =
     (if length scores = 0 then FloatArray scores
      else let min_score = Min (set scores);
               max_score = Max (set scores)
           in if max_score = min_score
              then FloatArray (map (\<lambda>_. 1 / 2) scores)
              else FloatArray (map (\<lambda>s. (s - min_score) / (max_score - min_score)) scores))"
| "normalize_score_array (IntArray scores) =
     (if length scores = 0 then IntArray scores
      else let min_score = Min (set scores);
               max_score = Max (set scores)
           in if max_score = min_score
              then IntArray (map (\<lambda>_. 0) scores)
              else FloatArray (map (\<lambda>s. real_of_int (s - min_score) / real_of_int (max_score - min_score))
                                 scores))"

record score_info =
  tfidf_available :: bool
  embedding_available :: bool
  normalization_applied :: bool
  weights :: "real \<times> real"
  fallback_mode :: "string option"
  combination_method :: "string option"

text \<open>
  \<open>combine_scores\<close> (lines 72-152).  \<open>np.array([])\<close> is an empty float array.  The
  \<open>score_statistics\<close> entry of \<open>score_info\<close> (means and standard deviations, lines 141-148)
  is left out; nothing reads it.
\<close>

definition combine_scores ::
  "HybridScorer \<Rightarrow> ndarray option \<Rightarrow> ndarray option \<Rightarrow> py_error + (ndarray \<times> score_info)" where
  "combine_scores self tfidf_scores embedding_scores =
     (let info = \<lparr>tfidf_available = (tfidf_scores \<noteq> None),
                  embedding_available = (embedding_scores \<noteq> None),
                  normalization_applied = normalize_scores self,
                  weights = (self_tfidf_weight self, self_embedding_weight self),
                  fallback_mode = None,
                  combination_method = None\<rparr>
      in case (tfidf_scores, embedding_scores) of
           (None, None) \<Rightarrow> Inr (FloatArray [], info)
         | (None, Some es) \<Rightarrow>
             Inr (if normalize_scores self then normalize_score_array es else es,
                  info\<lparr>fallback_mode := Some ''embedding_only''\<rparr>)
         | (Some ts, None) \<Rightarrow>
             Inr (if normalize_scores self then normalize_score_array ts else ts,
                  info\<lparr>fallback_mode := Some ''tfidf_only''\<rparr>)
         | (Some ts, Some es) \<Rightarrow>
             (let min_length = min (array_len ts) (array_len es);
                  ts1 = (if array_len ts \<noteq> array_len es then array_take min_length ts else ts);
                  es1 = (if array_len ts \<noteq> array_len es then array_take min_length es else es);
                  ts2 = (if normalize_scores self then normalize_score_array ts1 else ts1);
                  es2 = (if normalize_scores self then normalize_score_array es1 else es1)
              in Inr (FloatArray
                        (map2 (\<lambda>t e. self_tfidf_weight self * t + self_embedding_weight self * e)
                           (as_floats ts2) (as_floats es2)),
                      info\<lparr>combination_method := Some ''weighted_average''\<rparr>)))"

section \<open>Strings\<close>

text \<open>
  Strings are byte strings here, so \<open>str.lower\<close> and \<open>str.strip\<close> are modelled on ASCII:
  \<open>lower\<close> maps \<open>A..Z\<close> to \<open>a..z\<close>, and \<open>strip\<close> removes the ASCII white space
  (tab, line feed, vertical tab, form feed, carriage return, the separators 28-31, space)
  from both ends.
\<close>

definition lower_char :: "char \<Rightarrow> char" where
  "lower_char c =
     (let n = (of_char c :: nat) in if 65 \<le> n \<and> n \<le> 90 then char_of (n + 32) else c)"

definition lower :: "string \<Rightarrow> string" where
  "lower s = map lower_char s"

definition is_space :: "char \<Rightarrow> bool" where
  "is_space c = (let n = (of_char c :: nat) in (9 \<le> n \<and> n \<le> 13) \<or> (28 \<le> n \<and> n \<le> 32))"

definition strip :: "string \<Rightarrow> string" where
  "strip s = rev (dropWhile is_space (rev (dropWhile is_space s)))"

text \<open>\<open>sep.join(xs)\<close>.\<close>

fun join :: "string \<Rightarrow> string list \<Rightarrow> string" where
  "join sep [] = []"
| "join sep [x] = x"
| "join sep (x # y # ys) = x @ sep @ join sep (y # ys)"

text \<open>\<open>s.split(',')\<close>: always at least one piece.\<close>

fun split :: "char \<Rightarrow> string \<Rightarrow> string list" where
  "split sep [] = [] # []"
| "split sep (c # cs) =
     (if c = sep then [] # split sep cs
      else (case split sep cs of [] \<Rightarrow> [c] # [] | w # ws \<Rightarrow> (c # w) # ws))"

text \<open>\<open>needle in haystack\<close> on strings: \<open>needle\<close> occurs as a contiguous substring.\<close>

fun is_substring :: "string \<Rightarrow> string \<Rightarrow> bool" where
  "is_substring needle [] = (needle = [])"
| "is_substring needle (c # cs) = (prefix needle (c # cs) \<or> is_substring needle cs)"

text \<open>\<open>xs[:n]\<close> for an integer \<open>n\<close>: a negative \<open>n\<close> counts from the end.\<close>

definition py_take :: "int \<Rightarrow> 'a list \<Rightarrow> 'a list" where
  "py_take n xs = (if 0 \<le> n then take (nat n) xs else take (length xs - nat (- n)) xs)"

section \<open>Recipe metadata and recommendation dictionaries\<close>

text \<open>
  A row of \<open>_recipe_metadata\<close> is a dictionary read with \<open>recipe.get(key, default)\<close>:
  every key may be absent.  The field \<open>recipe_id_key\<close> is the key \<open>'id'\<close>.
\<close>

record recipe =
  recipe_id_key :: "int option"
  recipe_title :: "string option"
  recipe_ingredients_cleaned :: "string option"
  recipe_cuisine :: "string option"
  recipe_diet_types :: "string option"
  recipe_cooking_time :: "int option"
  recipe_difficulty :: "string option"

text \<open>
  The dictionaries that the recommenders return and that \<open>HybridRecommender\<close> extends are
  association lists from key strings to values, in insertion order; \<open>d.get(k)\<close> is
  \<open>map_of d k\<close> and \<open>d[k] = v\<close> is \<open>AList.update k v d\<close>.
\<close>

datatype pyval = PyInt int | PyFloat real | PyStr string

type_synonym pydict = "(string \<times> pyval) list"

definition get_or :: "'a option \<Rightarrow> 'a \<Rightarrow> 'a" where
  "get_or x d = (case x of None \<Rightarrow> d | Some v \<Rightarrow> v)"

text \<open>The dictionary literal of recommender\_tfidf.py lines 149-159 (recommender\_embed.py 173-183).\<close>

definition mk_recommendation :: "recipe \<Rightarrow> nat \<Rightarrow> real \<Rightarrow> pydict" where
  "mk_recommendation r idx score =
     [(''recipe_id'', PyInt (get_or (recipe_id_key r) (int idx))),
      (''title'', PyStr (get_or (recipe_title r) ''Unknown'')),
      (''ingredients'', PyStr (get_or (recipe_ingredients_cleaned r) [])),
      (''cuisine'', PyStr (get_or (recipe_cuisine r) ''Unknown'')),
      (''diet_types'', PyStr (get_or (recipe_diet_types r) [])),
      (''cooking_time'', PyInt (get_or (recipe_cooking_time r) 0)),
      (''difficulty'', PyStr (get_or (recipe_difficulty r) ''Unknown'')),
      (''similarity_score'', PyFloat score),
      (''match_percentage'', PyFloat (score * 100))]"

text \<open>
  A value used as a number: \<open>float * str\<close> and the comparison of a \<open>str\<close> with a \<open>float\<close>
  raise \<open>TypeError\<close>.
\<close>

fun py_float :: "pyval \<Rightarrow> py_error + real" where
  "py_float (PyFloat r) = Inr r"
| "py_float (PyInt i) = Inr (of_int i)"
| "py_float (PyStr s) = Inl TypeError"

text \<open>
  \<open>xs.sort(key=key, reverse=True)\<close>: the key of every element is computed first (the first
  key that raises ends the call); the sort is stable, so elements with equal keys keep
  their order.
\<close>

definition list_sort_desc :: "('a \<Rightarrow> py_error + real) \<Rightarrow> 'a list \<Rightarrow> py_error + 'a list" where
  "list_sort_desc key xs =
     (case List.find (\<lambda>x. isl (key x)) xs of
        Some x \<Rightarrow> Inl (projl (key x))
      | None \<Rightarrow> Inr (sort_key (\<lambda>x. - projr (key x)) xs))"

text \<open>The sort key \<open>lambda x: x['similarity_score']\<close>.\<close>

definition similarity_score_key :: "pydict \<Rightarrow> py_error + real" where
  "similarity_score_key x =
     (case map_of x ''similarity_score'' of None \<Rightarrow> Inl KeyError | Some v \<Rightarrow> py_float v)"

section \<open>The filters of the two recommenders\<close>

text \<open>
  recommender\_tfidf.py line 143 and recommender\_embed.py line 167: the recipe is skipped
  when a non-empty cuisine filter differs from the recipe's cuisine after lower-casing.
\<close>

definition cuisine_skips :: "string option \<Rightarrow> recipe \<Rightarrow> bool" where
  "cuisine_skips cuisine_filter r =
     (case cuisine_filter of
        None \<Rightarrow> False
      | Some f \<Rightarrow> f \<noteq> [] \<and> lower (get_or (recipe_cuisine r) []) \<noteq> lower f)"

text \<open>
  recommender\_tfidf.py line 146 and recommender\_embed.py line 170: the recipe is skipped
  when a non-empty diet filter, lower-cased, is not a substring of the lower-cased
  \<open>diet_types\<close> string.
\<close>

definition diet_skips :: "string option \<Rightarrow> recipe \<Rightarrow> bool" where
  "diet_skips diet_filter r =
     (case diet_filter of
        None \<Rightarrow> False
      | Some f \<Rightarrow> f \<noteq> [] \<and> \<not> is_substring (lower f) (lower (get_or (recipe_diet_types r) [])))"

text \<open>
  The loop over \<open>enumerate(similarities)\<close> (recommender\_tfidf.py lines 135-159,
  recommender\_embed.py lines 159-183; the two are the same text).  The only statement that
  can raise is \<open>self._recipe_metadata[idx]\<close>.
\<close>

fun recommendations_loop ::
  "recipe list \<Rightarrow> real \<Rightarrow> string option \<Rightarrow> string option \<Rightarrow> (nat \<times> real) list
     \<Rightarrow> py_error + pydict list" where
  "recommendations_loop md min_score cf df [] = Inr []"
| "recommendations_loop md min_score cf df ((idx, score) # rest) =
     (if score < min_score then recommendations_loop md min_score cf df rest
      else if length md \<le> idx then Inl IndexError
      else if cuisine_skips cf (md ! idx) then recommendations_loop md min_score cf df rest
      else if diet_skips df (md ! idx) then recommendations_loop md min_score cf df rest
      else (case recommendations_loop md min_score cf df rest of
              Inl e \<Rightarrow> Inl e
            | Inr recs \<Rightarrow> Inr (mk_recommendation (md ! idx) idx score # recs)))"

text \<open>Lines 161-165 (185-189): sort by score, descending, and cut to \<open>top_n\<close>.\<close>

definition rank_recommendations :: "int \<Rightarrow> pydict list \<Rightarrow> py_error + pydict list" where
  "rank_recommendations top_n recommendations =
     (case list_sort_desc similarity_score_key recommendations of
        Inl e \<Rightarrow> Inl e
      | Inr sorted_recs \<Rightarrow> Inr (py_take top_n sorted_recs))"

text \<open>
  Lines 134-165 of recommender\_tfidf.py and 158-189 of recommender\_embed.py: the loop, the
  sort and the cut, on the score array \<open>similarities\<close>.
\<close>

definition recommend_from_scores ::
  "recipe list \<Rightarrow> real list \<Rightarrow> int \<Rightarrow> real \<Rightarrow> string option \<Rightarrow> string option
     \<Rightarrow> py_error + pydict list" where
  "recommend_from_scores md similarities top_n min_score cuisine_filter diet_filter =
     (case recommendations_loop md min_score cuisine_filter diet_filter
             (List.enumerate 0 similarities) of
        Inl e \<Rightarrow> Inl e
      | Inr recommendations \<Rightarrow> rank_recommendations top_n recommendations)"

text \<open>\<open>_preprocess_ingredients\<close> of both recommenders; they differ in the separator only.\<close>

definition cleaned_ingredients :: "string list \<Rightarrow> string list" where
  "cleaned_ingredients ingredients = filter (\<lambda>c. c \<noteq> []) (map (\<lambda>i. strip (lower i)) ingredients)"

definition preprocess_ingredients :: "string \<Rightarrow> string list \<Rightarrow> string" where
  "preprocess_ingredients sep ingredients = join sep (cleaned_ingredients ingredients)"

section \<open>models/recommender\_tfidf.py: TFIDFRecommender\<close>

text \<open>
  The fitted vectorizer and the sparse recipe matrix belong to scikit-learn.  What the
  recommender needs from them is one function: the text of the query to the array
  \<open>cosine_similarity(vectorizer.transform([text]), recipe_vectors).flatten()\<close>, or the
  exception that one of the two calls raised.
\<close>

record tfidf_components =
  tfidf_similarities :: "string \<Rightarrow> py_error + real list"
  tfidf_recipe_metadata :: "recipe list"

text \<open>
  \<open>tfidf_loaded\<close> is \<open>None\<close> while \<open>_is_loaded\<close> is false; \<open>tfidf_loader\<close> is what
  \<open>model_loader.load_all_tfidf_components()\<close> returns or raises.
\<close>

record TFIDFRecommender =
  tfidf_loader :: "py_error + tfidf_components"
  tfidf_loaded :: "tfidf_components option"

text \<open>\<open>load_models\<close> (lines 34-48), returning the recommender with the components stored.\<close>

definition tfidf_load_models :: "TFIDFRecommender \<Rightarrow> py_error + TFIDFRecommender" where
  "tfidf_load_models self =
     (case tfidf_loaded self of
        Some c \<Rightarrow> Inr self
      | None \<Rightarrow>
          (case tfidf_loader self of
             Inl e \<Rightarrow> Inl e
           | Inr c \<Rightarrow> Inr (self\<lparr>tfidf_loaded := Some c\<rparr>)))"

text \<open>\<open>compute_similarity_scores\<close> (lines 83-105) on the loaded components.\<close>

definition tfidf_compute_similarity_scores :: "tfidf_components \<Rightarrow> string list \<Rightarrow> py_error + real list" where
  "tfidf_compute_similarity_scores c ingredients =
     (let ingredient_text = preprocess_ingredients '','' ingredients
      in if ingredient_text = [] then Inr (replicate (length (tfidf_recipe_metadata c)) 0)
         else tfidf_similarities c ingredient_text)"

text \<open>
  \<open>get_top_recommendations\<close> (lines 128-165).  The arguments are in the order of the
  signature: \<open>ingredients, top_n, min_score, cuisine_filter, diet_filter\<close>.
\<close>

definition tfidf_get_top_recommendations ::
  "TFIDFRecommender \<Rightarrow> string list \<Rightarrow> int \<Rightarrow> real \<Rightarrow> string option \<Rightarrow> string option
     \<Rightarrow> py_error + pydict list" where
  "tfidf_get_top_recommendations self ingredients top_n min_score cuisine_filter diet_filter =
     (case tfidf_load_models self of
        Inl e \<Rightarrow> Inl e
      | Inr self1 \<Rightarrow>
          (case tfidf_loaded self1 of
             None \<Rightarrow> Inl RuntimeError
           | Some c \<Rightarrow>
               (case tfidf_compute_similarity_scores c ingredients of
                  Inl e \<Rightarrow> Inl e
                | Inr similarities \<Rightarrow>
                    recommend_from_scores (tfidf_recipe_metadata c) similarities
                      top_n min_score cuisine_filter diet_filter)))"

section \<open>models/recommender\_embed.py: EmbeddingRecommender\<close>

text \<open>
  The sentence encoder and the FAISS index are external.  \<open>embedding_search text k\<close> stands
  for \<open>encode([text])\<close>, \<open>normalize_L2\<close> and \<open>index.search(query, k)\<close>: the pairs
  \<open>zip(similarities[0], indices[0])\<close>, or the exception raised on the way.
\<close>

record embedding_components =
  embedding_search :: "string \<Rightarrow> nat \<Rightarrow> py_error + (real \<times> int) list"
  embedding_recipe_metadata :: "recipe list"

record EmbeddingRecommender =
  embedding_loader :: "py_error + embedding_components"
  embedding_loaded :: "embedding_components option"

definition embedding_load_models :: "EmbeddingRecommender \<Rightarrow> py_error + EmbeddingRecommender" where
  "embedding_load_models self =
     (case embedding_loaded self of
        Some c \<Rightarrow> Inr self
      | None \<Rightarrow>
          (case embedding_loader self of
             Inl e \<Rightarrow> Inl e
           | Inr c \<Rightarrow> Inr (self\<lparr>embedding_loaded := Some c\<rparr>)))"

text \<open>
  Lines 114-116: \<open>full_similarities[idx] = sim\<close> for every hit.  A NumPy index in
  \<open>[-n, 0)\<close> counts from the end; any other index outside \<open>[0, n)\<close> raises.
\<close>

fun scatter_similarities :: "real list \<Rightarrow> (real \<times> int) list \<Rightarrow> py_error + real list" where
  "scatter_similarities full [] = Inr full"
| "scatter_similarities full ((sim, idx) # rest) =
     (if 0 \<le> idx \<and> idx < int (length full)
        then scatter_similarities (full[nat idx := sim]) rest
      else if - int (length full) \<le> idx \<and> idx < 0
        then scatter_similarities (full[nat (int (length full) + idx) := sim]) rest
      else Inl IndexError)"

text \<open>\<open>compute_similarity_scores\<close> (lines 89-123), the score array only.\<close>

definition embedding_compute_similarity_scores ::
  "embedding_components \<Rightarrow> string list \<Rightarrow> py_error + real list" where
  "embedding_compute_similarity_scores c ingredients =
     (let ingredient_text = preprocess_ingredients '' '' ingredients;
          num_recipes = length (embedding_recipe_metadata c)
      in if ingredient_text = [] then Inr (replicate num_recipes 0)
         else (case embedding_search c ingredient_text num_recipes of
                 Inl e \<Rightarrow> Inl e
               | Inr hits \<Rightarrow> scatter_similarities (replicate num_recipes 0) hits))"

text \<open>\<open>get_top_recommendations\<close> (lines 146-189).\<close>

definition embedding_get_top_recommendations ::
  "EmbeddingRecommender \<Rightarrow> string list \<Rightarrow> int \<Rightarrow> real \<Rightarrow> string option \<Rightarrow> string option
     \<Rightarrow> py_error + pydict list" where
  "embedding_get_top_recommendations self ingredients top_n min_score cuisine_filter diet_filter =
     (case embedding_load_models self of
        Inl e \<Rightarrow> Inl e
      | Inr self1 \<Rightarrow>
          (case embedding_loaded self1 of
             None \<Rightarrow> Inl RuntimeError
           | Some c \<Rightarrow>
               if preprocess_ingredients '' '' ingredients = [] then Inr []
               else
               (case embedding_compute_similarity_scores c ingredients of
                  Inl e \<Rightarrow> Inl e
                | Inr similarities \<Rightarrow>
                    recommend_from_scores (embedding_recipe_metadata c) similarities
                      top_n min_score cuisine_filter diet_filter)))"

section \<open>utils/filters.py: RecipeFilter.filter\_recipes\<close>

text \<open>
  Lines 86-113.  An index at or beyond the end is skipped; \<open>recipes_metadata[idx]\<close> with a
  negative index counts from the end and raises below \<open>-len\<close>.
\<close>

definition filter_keeps :: "string option \<Rightarrow> string option \<Rightarrow> recipe \<Rightarrow> bool" where
  "filter_keeps cuisine_filter diet_filter r =
     ((case cuisine_filter of
         None \<Rightarrow> True
       | Some f \<Rightarrow> f = [] \<or>
           (let recipe_cuisine = strip (get_or (recipe_cuisine r) [])
            in \<not> (recipe_cuisine = [] \<or> lower recipe_cuisine \<noteq> lower f)))
      \<and>
      (case diet_filter of
         None \<Rightarrow> True
       | Some f \<Rightarrow> f = [] \<or>
           (let recipe_diets = strip (get_or (recipe_diet_types r) [])
            in recipe_diets \<noteq> [] \<and>
               lower f \<in> set (map (\<lambda>d. lower (strip d)) (split CHR '','' recipe_diets)))))"

fun filter_recipes ::
  "recipe list \<Rightarrow> int list \<Rightarrow> string option \<Rightarrow> string option \<Rightarrow> py_error + int list" where
  "filter_recipes md [] cf df = Inr []"
| "filter_recipes md (idx # rest) cf df =
     (if int (length md) \<le> idx then filter_recipes md rest cf df
      else if idx < - int (length md) then Inl IndexError
      else (let r = (if 0 \<le> idx then md ! nat idx else md ! nat (int (length md) + idx))
            in if filter_keeps cf df r
               then (case filter_recipes md rest cf df of
                       Inl e \<Rightarrow> Inl e
                     | Inr kept \<Rightarrow> Inr (idx # kept))
               else filter_recipes md rest cf df))"

section \<open>models/hybrid\_recommender.py: HybridRecommender\<close>

record HybridRecommender =
  tfidf_recommender :: "TFIDFRecommender option"
  embedding_recommender :: "EmbeddingRecommender option"
  hybrid_scorer :: "HybridScorer option"
  hybrid_tfidf_weight :: real
  hybrid_embedding_weight :: real

text \<open>
  \<open>__init__\<close> and \<open>_initialize_models\<close> (lines 30-63): the two recommenders are what the
  getters return (\<open>None\<close> when the getter raised), the weights are read from the settings.
\<close>

definition HybridRecommender_init ::
  "Settings \<Rightarrow> TFIDFRecommender option \<Rightarrow> EmbeddingRecommender option \<Rightarrow> HybridRecommender" where
  "HybridRecommender_init cfg t e =
     \<lparr>tfidf_recommender = t,
      embedding_recommender = e,
      hybrid_scorer = Some (create_hybrid_scorer cfg (Some (tfidf_weight cfg)) (Some (embedding_weight cfg))),
      hybrid_tfidf_weight = tfidf_weight cfg,
      hybrid_embedding_weight = embedding_weight cfg\<rparr>"

text \<open>\<open>d.get(k, 0.0)\<close>.\<close>

definition dict_get_float :: "pydict \<Rightarrow> string \<Rightarrow> pyval" where
  "dict_get_float d k = get_or (map_of d k) (PyFloat 0)"

text \<open>Lines 116-120 and 123-127: the copy of a result with its source.\<close>

definition tag_tfidf :: "pydict \<Rightarrow> pydict" where
  "tag_tfidf result =
     AList.update ''source'' (PyStr ''tfidf'')
       (AList.update ''tfidf_score'' (dict_get_float result ''match_score'') result)"

definition tag_embedding :: "pydict \<Rightarrow> pydict" where
  "tag_embedding result =
     AList.update ''source'' (PyStr ''embedding'')
       (AList.update ''embedding_score'' (dict_get_float result ''match_score'') result)"

text \<open>
  Lines 130-149.  \<open>unique_results\<close> is a dictionary in insertion order whose keys are
  \<open>result.get('id')\<close>: the value under the key \<open>'id'\<close>, or \<open>None\<close> when the result has no
  such key.
\<close>

fun merge_unique ::
  "real \<Rightarrow> real \<Rightarrow> (pyval option \<times> pydict) list \<Rightarrow> pydict list
     \<Rightarrow> py_error + (pyval option \<times> pydict) list" where
  "merge_unique wt we unique_results [] = Inr unique_results"
| "merge_unique wt we unique_results (result # rest) =
     (let recipe_id = map_of result ''id''
      in case map_of unique_results recipe_id of
           None \<Rightarrow> merge_unique wt we (AList.update recipe_id result unique_results) rest
         | Some existing \<Rightarrow>
             (let existing1 =
                    (if map_of result ''source'' = Some (PyStr ''tfidf'')
                     then AList.update ''tfidf_score'' (dict_get_float result ''tfidf_score'') existing
                     else AList.update ''embedding_score'' (dict_get_float result ''embedding_score'') existing)
              in case (py_float (dict_get_float existing1 ''tfidf_score''),
                       py_float (dict_get_float existing1 ''embedding_score'')) of
                   (Inr tfidf_score, Inr embedding_score) \<Rightarrow>
                     merge_unique wt we
                       (AList.update recipe_id
                          (AList.update ''match_score''
                             (PyFloat (wt * tfidf_score + we * embedding_score)) existing1)
                          unique_results)
                       rest
                 | _ \<Rightarrow> Inl TypeError))"

text \<open>The sort key \<open>lambda x: x.get('match_score', 0.0)\<close>.\<close>

definition match_score_key :: "pydict \<Rightarrow> py_error + real" where
  "match_score_key x = py_float (dict_get_float x ''match_score'')"

text \<open>
  The two calls of lines 86-110: a recommender that is \<open>None\<close> and a call that raises both
  leave the result list empty.
\<close>

definition tfidf_results_of ::
  "HybridRecommender \<Rightarrow> string list \<Rightarrow> string option \<Rightarrow> string option \<Rightarrow> int \<Rightarrow> pydict list" where
  "tfidf_results_of self ingredients cuisine_filter diet_filter max_results =
     (case tfidf_recommender self of
        None \<Rightarrow> []
      | Some r \<Rightarrow>
          (case tfidf_get_top_recommendations r ingredients (max_results * 2) 0 cuisine_filter diet_filter of
             Inl e \<Rightarrow> []
           | Inr results \<Rightarrow> results))"

definition embedding_results_of ::
  "HybridRecommender \<Rightarrow> string list \<Rightarrow> string option \<Rightarrow> string option \<Rightarrow> int \<Rightarrow> pydict list" where
  "embedding_results_of self ingredients cuisine_filter diet_filter max_results =
     (case embedding_recommender self of
        None \<Rightarrow> []
      | Some r \<Rightarrow>
          (case embedding_get_top_recommendations r ingredients (max_results * 2) 0 cuisine_filter diet_filter of
             Inl e \<Rightarrow> []
           | Inr results \<Rightarrow> results))"

text \<open>\<open>get_recommendations\<close> (lines 86-159).\<close>

definition get_recommendations ::
  "HybridRecommender \<Rightarrow> string list \<Rightarrow> string option \<Rightarrow> string option \<Rightarrow> int
     \<Rightarrow> py_error + pydict list" where
  "get_recommendations self ingredients cuisine_filter diet_filter max_results =
     (let tfidf_results = tfidf_results_of self ingredients cuisine_filter diet_filter max_results;
          embedding_results = embedding_results_of self ingredients cuisine_filter diet_filter max_results;
          all_results = map tag_tfidf tfidf_results @ map tag_embedding embedding_results
      in case merge_unique (hybrid_tfidf_weight self) (hybrid_embedding_weight self) [] all_results of
           Inl e \<Rightarrow> Inl e
         | Inr unique_results \<Rightarrow>
             (case list_sort_desc match_score_key (map snd unique_results) of
                Inl e \<Rightarrow> Inl e
              | Inr combined_results \<Rightarrow> Inr (py_take max_results combined_results)))"

section \<open>Both recommenders behind one name\<close>

datatype backend = TFIDF TFIDFRecommender | Embedding EmbeddingRecommender

fun get_top_recommendations ::
  "backend \<Rightarrow> string list \<Rightarrow> int \<Rightarrow> real \<Rightarrow> string option \<Rightarrow> string option
     \<Rightarrow> py_error + pydict list" where
  "get_top_recommendations (TFIDF r) ingredients top_n min_score cf df =
     tfidf_get_top_recommendations r ingredients top_n min_score cf df"
| "get_top_recommendations (Embedding r) ingredients top_n min_score cf df =
     embedding_get_top_recommendations r ingredients top_n min_score cf df"

text \<open>
  The recipe metadata a call works on: the stored rows when the models are loaded,
  otherwise the rows that \<open>load_models\<close> obtains from the loader.
\<close>

fun loaded_metadata :: "backend \<Rightarrow> py_error + recipe list" where
  "loaded_metadata (TFIDF r) =
     (case tfidf_loaded r of
        Some c \<Rightarrow> Inr (tfidf_recipe_metadata c)
      | None \<Rightarrow> (case tfidf_loader r of Inl e \<Rightarrow> Inl e | Inr c \<Rightarrow> Inr (tfidf_recipe_metadata c)))"
| "loaded_metadata (Embedding r) =
     (case embedding_loaded r of
        Some c \<Rightarrow> Inr (embedding_recipe_metadata c)
      | None \<Rightarrow> (case embedding_loader r of Inl e \<Rightarrow> Inl e | Inr c \<Rightarrow> Inr (embedding_recipe_metadata c)))"

section \<open>Reading results\<close>

text \<open>
  The score and the recipe id of a recommendation dictionary.  Every dictionary built by
  \<open>mk_recommendation\<close> holds both keys; the value \<open>0\<close> stands for a missing key.
\<close>

definition score_of :: "pydict \<Rightarrow> real" where
  "score_of d = (case map_of d ''similarity_score'' of Some (PyFloat s) \<Rightarrow> s | _ \<Rightarrow> 0)"

definition recipe_id_of :: "pydict \<Rightarrow> int" where
  "recipe_id_of d = (case map_of d ''recipe_id'' of Some (PyInt i) \<Rightarrow> i | _ \<Rightarrow> 0)"

definition result_recipe_ids :: "py_error + pydict list \<Rightarrow> py_error + int list" where
  "result_recipe_ids res = (case res of Inl e \<Rightarrow> Inl e | Inr rs \<Rightarrow> Inr (map recipe_id_of rs))"

text \<open>Descending score, equal scores in ascending recipe id.\<close>

definition ranked_with_id_ties :: "pydict list \<Rightarrow> bool" where
  "ranked_with_id_ties rs =
     sorted_wrt (\<lambda>a b. score_of b < score_of a \<or> (score_of a = score_of b \<and> recipe_id_of a < recipe_id_of b)) rs"

text \<open>The recipe id of every corpus row, as line 150 computes it: \<open>recipe.get('id', idx)\<close>.\<close>

definition row_ids :: "recipe list \<Rightarrow> int list" where
  "row_ids md = map (\<lambda>e. get_or (recipe_id_key (snd e)) (int (fst e))) (List.enumerate 0 md)"

text \<open>The entries of \<open>enumerate(similarities)\<close> that the loop turns into recommendations.\<close>

definition loop_keeps :: "recipe list \<Rightarrow> real \<Rightarrow> string option \<Rightarrow> string option \<Rightarrow> nat \<times> real \<Rightarrow> bool" where
  "loop_keeps md min_score cf df e =
     (\<not> snd e < min_score \<and> \<not> cuisine_skips cf (md ! fst e) \<and> \<not> diet_skips df (md ! fst e))"

text \<open>
  The specification's diet filter: the filter equals, up to case, one of the labels of the
  comma-separated \<open>diet_types\<close> string.
\<close>

definition spec_diet_label_match :: "string \<Rightarrow> string \<Rightarrow> bool" where
  "spec_diet_label_match f diet_types =
     (lower f \<in> set (map (\<lambda>d. lower (strip d)) (split CHR '','' diet_types)))"

text \<open>A backend of the hybrid recommender is unavailable: it is absent, or its call raises.\<close>

definition tfidf_unavailable ::
  "HybridRecommender \<Rightarrow> string list \<Rightarrow> string option \<Rightarrow> string option \<Rightarrow> int \<Rightarrow> bool" where
  "tfidf_unavailable self ingredients cf df max_results =
     (case tfidf_recommender self of
        None \<Rightarrow> True
      | Some r \<Rightarrow> isl (tfidf_get_top_recommendations r ingredients (max_results * 2) 0 cf df))"

definition embedding_unavailable ::
  "HybridRecommender \<Rightarrow> string list \<Rightarrow> string option \<Rightarrow> string option \<Rightarrow> int \<Rightarrow> bool" where
  "embedding_unavailable self ingredients cf df max_results =
     (case embedding_recommender self of
        None \<Rightarrow> True
      | Some r \<Rightarrow> isl (embedding_get_top_recommendations r ingredients (max_results * 2) 0 cf df))"

section \<open>Example corpus\<close>

definition ex_recipe_a :: recipe where
  "ex_recipe_a =
     \<lparr>recipe_id_key = Some 5, recipe_title = Some ''Coq au Vin'',
      recipe_ingredients_cleaned = Some ''chicken,garlic'', recipe_cuisine = Some ''French'',
      recipe_diet_types = Some ''Non-Vegetarian'', recipe_cooking_time = Some 60,
      recipe_difficulty = Some ''Medium''\<rparr>"

definition ex_recipe_b :: recipe where
  "ex_recipe_b =
     \<lparr>recipe_id_key = Some 3, recipe_title = Some ''Pasta al Pomodoro'',
      recipe_ingredients_cleaned = Some ''pasta,tomato'', recipe_cuisine = Some ''Italian'',
      recipe_diet_types = Some ''Vegan,Gluten-Free'', recipe_cooking_time = Some 20,
      recipe_difficulty = Some ''Easy''\<rparr>"

text \<open>A loaded TF-IDF recommender over the rows \<open>[a, b]\<close> with the scores 1 and 1/2.\<close>

definition ex_tfidf :: TFIDFRecommender where
  "ex_tfidf =
     \<lparr>tfidf_loader = Inl RuntimeError,
      tfidf_loaded = Some \<lparr>tfidf_similarities = (\<lambda>text. Inr [1, 1 / 2]),
                          tfidf_recipe_metadata = [ex_recipe_a, ex_recipe_b]\<rparr>\<rparr>"

text \<open>The same rows, both with the score 1.\<close>

definition ex_tfidf_tie :: TFIDFRecommender where
  "ex_tfidf_tie =
     \<lparr>tfidf_loader = Inl RuntimeError,
      tfidf_loaded = Some \<lparr>tfidf_similarities = (\<lambda>text. Inr [1, 1]),
                          tfidf_recipe_metadata = [ex_recipe_a, ex_recipe_b]\<rparr>\<rparr>"

text \<open>The rows in the order \<open>[b, a]\<close> (ids 3, 5), both with the score 1, not yet loaded.\<close>

definition ex_tfidf_ordered :: TFIDFRecommender where
  "ex_tfidf_ordered =
     \<lparr>tfidf_loader = Inr \<lparr>tfidf_similarities = (\<lambda>text. Inr [1, 1]),
                         tfidf_recipe_metadata = [ex_recipe_b, ex_recipe_a]\<rparr>,
      tfidf_loaded = None\<rparr>"

text \<open>A TF-IDF recommender whose model files cannot be loaded.\<close>

definition ex_tfidf_broken :: TFIDFRecommender where
  "ex_tfidf_broken = \<lparr>tfidf_loader = Inl RuntimeError, tfidf_loaded = None\<rparr>"

text \<open>A loaded embedding recommender over \<open>[a, b]\<close>: the index returns row 1 before row 0.\<close>

definition ex_embedding :: EmbeddingRecommender where
  "ex_embedding =
     \<lparr>embedding_loader = Inl RuntimeError,
      embedding_loaded = Some \<lparr>embedding_search = (\<lambda>text k. Inr [(3 / 4, 1), (1 / 4, 0)]),
                              embedding_recipe_metadata = [ex_recipe_a, ex_recipe_b]\<rparr>\<rparr>"

definition ex_hybrid_tfidf_only :: HybridRecommender where
  "ex_hybrid_tfidf_only = HybridRecommender_init settings (Some ex_tfidf) None"

definition ex_hybrid_both :: HybridRecommender where
  "ex_hybrid_both = HybridRecommender_init settings (Some ex_tfidf) (Some ex_embedding)"

definition ex_hybrid_none :: HybridRecommender where
  "ex_hybrid_none = HybridRecommender_init settings (Some ex_tfidf_broken) None"

section \<open>Evaluations on the example corpus\<close>

text \<open>
  C1.  A query that normalizes to zero tokens: the embedding recommender returns the empty
  list, but the TF-IDF recommender scores every recipe 0, keeps all of them (0 is not
  below \<open>min_score\<close> = 0), and the hybrid recommender returns a recipe as well.
\<close>

theorem empty_query_returns_zero_score_recipes:
  "cleaned_ingredients ['' '', ''''] = []
   \<and> result_recipe_ids (tfidf_get_top_recommendations ex_tfidf ['' '', ''''] 10 0 None None) = Inr [5, 3]
   \<and> result_recipe_ids (get_recommendations ex_hybrid_both ['' '', ''''] None None 10) = Inr [5]
   \<and> embedding_get_top_recommendations ex_embedding ['' '', ''''] 10 0 None None = Inr []"
  by code_simp

text \<open>
  C2.  With the embedding recommender absent, the TF-IDF recommender alone ranks the
  recipes 5 and 3, and the hybrid recommender returns recipe 5 only: no result carries
  the key \<open>'id'\<close>, so every result after the first is merged into the first.
\<close>

theorem single_backend_fusion_keeps_first_result_only:
  "result_recipe_ids (get_recommendations ex_hybrid_tfidf_only [''chicken''] None None 10) = Inr [5]
   \<and> result_recipe_ids (tfidf_get_top_recommendations ex_tfidf [''chicken''] 10 0 None None) = Inr [5, 3]"
  by code_simp

text \<open>
  C3.  With the default settings the input weights (0, 0) give the effective weights
  0.4 and 0.6, not 0.5 and 0.5, and the inputs (0, 1) give 2/7 and 5/7, which are not
  proportional to the inputs.
\<close>

theorem zero_input_weights_give_settings_defaults:
  "self_tfidf_weight (HybridScorer_init settings (Some 0) (Some 0) True) = 4 / 10
   \<and> self_embedding_weight (HybridScorer_init settings (Some 0) (Some 0) True) = 6 / 10
   \<and> self_tfidf_weight (HybridScorer_init settings (Some 0) (Some 1) True) = 2 / 7
   \<and> self_embedding_weight (HybridScorer_init settings (Some 0) (Some 1) True) = 5 / 7"
  by (simp add: HybridScorer_init_def settings_def py_or_def)

text \<open>
  C5.  Both recommenders return the recipes 5 and 3.  None of the four tagged results has
  the key \<open>'id'\<close>, so the merge puts all of them under the one key \<open>None\<close>: recipe 3 is
  merged into the entry of recipe 5 although the recipe ids differ.
\<close>

theorem merge_key_is_absent_id_not_recipe_id:
  "result_recipe_ids (tfidf_get_top_recommendations ex_tfidf [''chicken''] 10 0 None None) = Inr [5, 3]
   \<and> result_recipe_ids (embedding_get_top_recommendations ex_embedding [''chicken''] 10 0 None None) = Inr [3, 5]
   \<and> list_all (\<lambda>d. map_of d ''id'' = None)
        (map tag_tfidf [mk_recommendation ex_recipe_a 0 1, mk_recommendation ex_recipe_b 1 (1 / 2)])
   \<and> result_recipe_ids (get_recommendations ex_hybrid_both [''chicken''] None None 10) = Inr [5]"
  by code_simp

text \<open>
  C7.  The diet filter \<open>Vegetarian\<close> is not one of the labels of \<open>Non-Vegetarian\<close>, and
  \<open>RecipeFilter.filter_recipes\<close> drops the recipe, but both recommenders keep it: they
  test for a substring of the whole \<open>diet_types\<close> string.
\<close>

theorem diet_filter_matches_substring_of_other_label:
  "\<not> spec_diet_label_match ''Vegetarian'' ''Non-Vegetarian''
   \<and> result_recipe_ids (tfidf_get_top_recommendations ex_tfidf [''chicken''] 10 0 None (Some ''Vegetarian'')) = Inr [5]
   \<and> result_recipe_ids (embedding_get_top_recommendations ex_embedding [''chicken''] 10 0 None (Some ''Vegetarian'')) = Inr [5]
   \<and> filter_recipes [ex_recipe_a, ex_recipe_b] [0, 1] None (Some ''Vegetarian'') = Inr []"
  by code_simp

section \<open>Lemmas on slicing, sorting and the recommendation loop\<close>

lemma py_take_subseq: "subseq (py_take n xs) xs"
  by (auto simp: py_take_def intro: prefix_imp_subseq take_is_prefix)

lemma py_take_untruncated: "int (length (py_take n xs)) < n \<Longrightarrow> py_take n xs = xs"
  by (auto simp: py_take_def min_def split: if_splits)

lemma sorted_wrt_py_take: "sorted_wrt R xs \<Longrightarrow> sorted_wrt R (py_take n xs)"
  by (simp add: py_take_def)

lemma similarity_score_key_mk: "similarity_score_key (mk_recommendation r i s) = Inr s"
  by (simp add: similarity_score_key_def mk_recommendation_def)

lemma score_of_mk: "score_of (mk_recommendation r i s) = s"
  by (simp add: score_of_def mk_recommendation_def)

lemma recipe_id_of_mk: "recipe_id_of (mk_recommendation r i s) = get_or (recipe_id_key r) (int i)"
  by (simp add: recipe_id_of_def mk_recommendation_def)

lemma insort_key_cong_set:
  "f x = g x \<Longrightarrow> \<forall>y\<in>set ys. f y = g y \<Longrightarrow> insort_key f x ys = insort_key g x ys"
  by (induction ys) simp_all

lemma sort_key_cong_set:
  "\<forall>y\<in>set xs. f y = g y \<Longrightarrow> sort_key f xs = sort_key g xs"
proof (induction xs)
  case Nil
  then show ?case by simp
next
  case (Cons x xs)
  have ih: "sort_key f xs = sort_key g xs" using Cons by simp
  have fx: "f x = g x" using Cons.prems by simp
  have all: "\<forall>y\<in>set (sort_key g xs). f y = g y" using Cons.prems by simp
  have "insort_key f x (sort_key g xs) = insort_key g x (sort_key g xs)"
    using fx all by (rule insort_key_cong_set)
  with ih show ?case by simp
qed

lemma insort_key_map:
  "insort_key f (h x) (map h ys) = map h (insort_key (\<lambda>x. f (h x)) x ys)"
  by (induction ys) simp_all

lemma sort_key_map: "sort_key f (map h xs) = map h (sort_key (\<lambda>x. f (h x)) xs)"
  by (induction xs) (simp_all add: insort_key_map)

lemma list_sort_desc_Inr:
  assumes a: "\<forall>x\<in>set xs. key x = Inr (f x)"
  shows "list_sort_desc key xs = Inr (sort_key (\<lambda>x. - f x) xs)"
proof -
  have n: "List.find (\<lambda>x. isl (key x)) xs = None"
    using a by (auto simp: find_None_iff)
  have "\<forall>x\<in>set xs. - projr (key x) = - f x"
    using a by simp
  then have "sort_key (\<lambda>x. - projr (key x)) xs = sort_key (\<lambda>x. - f x) xs"
    by (rule sort_key_cong_set)
  with n show ?thesis by (simp add: list_sort_desc_def)
qed

lemma insort_key_lex:
  fixes f :: "'a \<Rightarrow> real"
  assumes s: "sorted_wrt (\<lambda>a b. f a < f b \<or> (f a = f b \<and> R a b)) ys"
      and r: "\<forall>y\<in>set ys. R x y"
  shows "sorted_wrt (\<lambda>a b. f a < f b \<or> (f a = f b \<and> R a b)) (insort_key f x ys)"
  using s r
proof (induction ys)
  case Nil
  then show ?case by simp
next
  case (Cons y ys)
  show ?case
  proof (cases "f x \<le> f y")
    case True
    have "f x < f z \<or> (f x = f z \<and> R x z)" if "z \<in> set (y # ys)" for z
    proof -
      have "f y \<le> f z" using Cons.prems(1) that by auto
      with True have "f x \<le> f z" by simp
      moreover have "R x z" using Cons.prems(2) that by auto
      ultimately show ?thesis by linarith
    qed
    with True Cons.prems(1) show ?thesis by simp
  next
    case False
    have ih: "sorted_wrt (\<lambda>a b. f a < f b \<or> (f a = f b \<and> R a b)) (insort_key f x ys)"
      using Cons.IH Cons.prems by simp
    have "f y < f z \<or> (f y = f z \<and> R y z)" if "z \<in> set (insort_key f x ys)" for z
    proof -
      from that have "z = x \<or> z \<in> set ys" by (simp add: set_insort_key)
      then show ?thesis using False Cons.prems(1) by auto
    qed
    with False ih show ?thesis by simp
  qed
qed

lemma sort_key_lex:
  fixes f :: "'a \<Rightarrow> real"
  shows "sorted_wrt R xs \<Longrightarrow> sorted_wrt (\<lambda>a b. f a < f b \<or> (f a = f b \<and> R a b)) (sort_key f xs)"
proof (induction xs)
  case Nil
  then show ?case by simp
next
  case (Cons x xs)
  then have "sorted_wrt (\<lambda>a b. f a < f b \<or> (f a = f b \<and> R a b)) (sort_key f xs)" by simp
  moreover have "\<forall>y\<in>set (sort_key f xs). R x y" using Cons.prems by simp
  ultimately have "sorted_wrt (\<lambda>a b. f a < f b \<or> (f a = f b \<and> R a b)) (insort_key f x (sort_key f xs))"
    by (rule insort_key_lex)
  then show ?case by simp
qed

lemma recommendations_loop_Inr:
  "recommendations_loop md ms cf df es = Inr recs \<Longrightarrow>
     recs = map (\<lambda>e. mk_recommendation (md ! fst e) (fst e) (snd e)) (filter (loop_keeps md ms cf df) es)"
proof (induction es arbitrary: recs)
  case Nil
  then show ?case by simp
next
  case (Cons e es)
  obtain idx score where e: "e = (idx, score)" by (cases e)
  show ?case
  proof (cases "loop_keeps md ms cf df e")
    case False
    have "recommendations_loop md ms cf df es = Inr recs"
      using Cons.prems False by (auto simp: e loop_keeps_def split: if_splits)
    from Cons.IH[OF this] False show ?thesis by simp
  next
    case True
    with Cons.prems obtain recs' where r: "recommendations_loop md ms cf df es = Inr recs'"
      and eq: "recs = mk_recommendation (md ! idx) idx score # recs'"
      by (auto simp: e loop_keeps_def split: if_splits sum.splits)
    from Cons.IH[OF r] True eq show ?thesis by (simp add: e)
  qed
qed

lemma recommendations_loop_bounds:
  "recommendations_loop md ms cf df es = Inr recs \<Longrightarrow> e \<in> set es \<Longrightarrow> \<not> snd e < ms \<Longrightarrow> fst e < length md"
proof (induction es arbitrary: recs)
  case Nil
  then show ?case by simp
next
  case (Cons x es)
  obtain idx score where x: "x = (idx, score)" by (cases x)
  from Cons.prems(1) obtain recs' where r: "recommendations_loop md ms cf df es = Inr recs'"
    by (auto simp: x split: if_splits sum.splits)
  from Cons.prems(1) have b: "\<not> score < ms \<Longrightarrow> idx < length md"
    by (auto simp: x split: if_splits)
  show ?case
  proof (cases "e = x")
    case True
    with b Cons.prems(3) show ?thesis by (simp add: x)
  next
    case False
    with Cons.prems(2) have "e \<in> set es" by simp
    from Cons.IH[OF r this Cons.prems(3)] show ?thesis .
  qed
qed

lemma rank_recommendations_mk:
  "rank_recommendations n (map (\<lambda>e. mk_recommendation (md ! fst e) (fst e) (snd e)) es) =
     Inr (py_take n (map (\<lambda>e. mk_recommendation (md ! fst e) (fst e) (snd e)) (sort_key (\<lambda>e. - snd e) es)))"
proof -
  let ?mk = "\<lambda>e. mk_recommendation (md ! fst e) (fst e) (snd e)"
  have "\<forall>x\<in>set (map ?mk es). similarity_score_key x = Inr (score_of x)"
    by (auto simp: similarity_score_key_mk score_of_mk)
  then have "list_sort_desc similarity_score_key (map ?mk es) = Inr (sort_key (\<lambda>x. - score_of x) (map ?mk es))"
    by (rule list_sort_desc_Inr)
  then show ?thesis
    by (simp add: rank_recommendations_def sort_key_map score_of_mk)
qed

lemma recommend_from_scores_Inr:
  assumes "recommend_from_scores md sims n ms cf df = Inr rs"
  shows "rs = py_take n (map (\<lambda>e. mk_recommendation (md ! fst e) (fst e) (snd e))
                 (sort_key (\<lambda>e. - snd e) (filter (loop_keeps md ms cf df) (List.enumerate 0 sims))))"
    and "\<forall>e\<in>set (filter (loop_keeps md ms cf df) (List.enumerate 0 sims)). fst e < length md"
proof -
  from assms obtain recs where l: "recommendations_loop md ms cf df (List.enumerate 0 sims) = Inr recs"
    and r: "rank_recommendations n recs = Inr rs"
    by (auto simp: recommend_from_scores_def split: sum.splits)
  from recommendations_loop_Inr[OF l] r rank_recommendations_mk[of n md]
  show "rs = py_take n (map (\<lambda>e. mk_recommendation (md ! fst e) (fst e) (snd e))
                 (sort_key (\<lambda>e. - snd e) (filter (loop_keeps md ms cf df) (List.enumerate 0 sims))))"
    by simp
  show "\<forall>e\<in>set (filter (loop_keeps md ms cf df) (List.enumerate 0 sims)). fst e < length md"
    using recommendations_loop_bounds[OF l] by (auto simp: loop_keeps_def)
qed

lemma filtered_subseq_core:
  assumes F: "recommend_from_scores md sims n ms cf df = Inr fs"
      and U: "recommend_from_scores md sims m ms None None = Inr us"
      and L: "int (length us) < m"
  shows "subseq fs us"
proof -
  let ?es = "List.enumerate 0 sims"
  let ?k = "\<lambda>e :: nat \<times> real. - snd e"
  let ?mk = "\<lambda>e. mk_recommendation (md ! fst e) (fst e) (snd e)"
  let ?F = "loop_keeps md ms cf df" and ?U = "loop_keeps md ms None None"
  have fs: "fs = py_take n (map ?mk (sort_key ?k (filter ?F ?es)))"
    by (rule recommend_from_scores_Inr(1)[OF F])
  have us0: "us = py_take m (map ?mk (sort_key ?k (filter ?U ?es)))"
    by (rule recommend_from_scores_Inr(1)[OF U])
  have "int (length (py_take m (map ?mk (sort_key ?k (filter ?U ?es))))) < m"
    using L us0 by simp
  then have us: "us = map ?mk (sort_key ?k (filter ?U ?es))"
    using us0 py_take_untruncated by metis
  have imp: "?F e \<Longrightarrow> ?U e" for e
    by (simp add: loop_keeps_def cuisine_skips_def diet_skips_def)
  have "filter ?F (filter ?U ?es) = filter ?F ?es"
    using imp by (auto intro: filter_cong)
  then have "sort_key ?k (filter ?F ?es) = filter ?F (sort_key ?k (filter ?U ?es))"
    by (simp only: filter_sort)
  then have "subseq (sort_key ?k (filter ?F ?es)) (sort_key ?k (filter ?U ?es))"
    by simp
  then have "subseq (map ?mk (sort_key ?k (filter ?F ?es))) (map ?mk (sort_key ?k (filter ?U ?es)))"
    by (rule subseq_map)
  with py_take_subseq[of n "map ?mk (sort_key ?k (filter ?F ?es))"]
  show ?thesis unfolding fs us by (rule subseq_order.trans)
qed

lemma ranked_core:
  assumes R: "recommend_from_scores md sims n ms cf df = Inr rs"
  shows "sorted_wrt (\<lambda>a b. score_of b \<le> score_of a) rs
       \<and> (sorted_wrt (<) (row_ids md) \<longrightarrow> ranked_with_id_ties rs)"
proof -
  let ?es = "List.enumerate 0 sims"
  let ?k = "\<lambda>e :: nat \<times> real. - snd e"
  let ?mk = "\<lambda>e. mk_recommendation (md ! fst e) (fst e) (snd e)"
  let ?kept = "filter (loop_keeps md ms cf df) ?es"
  let ?srt = "sort_key ?k ?kept"
  have rs: "rs = py_take n (map ?mk ?srt)"
    by (rule recommend_from_scores_Inr(1)[OF R])
  have bnd: "fst e < length md" if "e \<in> set ?srt" for e
  proof -
    from that have "e \<in> set ?kept" by (simp only: set_sort)
    with recommend_from_scores_Inr(2)[OF R] show ?thesis by blast
  qed
  have "sorted_wrt (<) (map fst ?es)" by simp
  then have "sorted_wrt (\<lambda>a b. fst a < fst b) ?es" by (simp only: sorted_wrt_map)
  then have idx: "sorted_wrt (\<lambda>a b. fst a < fst b) ?kept" by (rule sorted_wrt_filter)
  have lex: "sorted_wrt (\<lambda>a b. ?k a < ?k b \<or> (?k a = ?k b \<and> fst a < fst b)) ?srt"
    using idx by (rule sort_key_lex)
  have "sorted_wrt (\<lambda>a b. score_of (?mk b) \<le> score_of (?mk a)) ?srt"
    by (rule sorted_wrt_mono_rel[OF _ lex]) (auto simp: score_of_mk)
  then have "sorted_wrt (\<lambda>a b. score_of b \<le> score_of a) (map ?mk ?srt)"
    by (simp only: sorted_wrt_map)
  then have one: "sorted_wrt (\<lambda>a b. score_of b \<le> score_of a) rs"
    unfolding rs by (rule sorted_wrt_py_take)
  have two: "ranked_with_id_ties rs" if inc: "sorted_wrt (<) (row_ids md)"
  proof -
    have len: "length (row_ids md) = length md" by (simp add: row_ids_def)
    have rid: "recipe_id_of (?mk e) = row_ids md ! fst e" if "fst e < length md" for e
      using that by (simp add: recipe_id_of_mk row_ids_def nth_enumerate_eq)
    have "sorted_wrt (\<lambda>a b. score_of (?mk b) < score_of (?mk a)
             \<or> (score_of (?mk a) = score_of (?mk b) \<and> recipe_id_of (?mk a) < recipe_id_of (?mk b))) ?srt"
    proof (rule sorted_wrt_mono_rel[OF _ lex])
      fix a b
      assume a: "a \<in> set ?srt" and b: "b \<in> set ?srt"
        and h: "?k a < ?k b \<or> (?k a = ?k b \<and> fst a < fst b)"
      have "row_ids md ! fst a < row_ids md ! fst b" if "fst a < fst b"
        using inc that bnd[OF b] len by (simp add: sorted_wrt_iff_nth_less)
      then show "score_of (?mk b) < score_of (?mk a)
             \<or> (score_of (?mk a) = score_of (?mk b) \<and> recipe_id_of (?mk a) < recipe_id_of (?mk b))"
        using h rid[OF bnd[OF a]] rid[OF bnd[OF b]] by (auto simp: score_of_mk)
    qed
    then have "ranked_with_id_ties (map ?mk ?srt)"
      unfolding ranked_with_id_ties_def by (simp only: sorted_wrt_map)
    then show ?thesis
      unfolding rs ranked_with_id_ties_def by (rule sorted_wrt_py_take)
  qed
  from one two show ?thesis by simp
qed

lemma py_take_map: "py_take n (map f xs) = map f (py_take n xs)"
  by (simp add: py_take_def take_map)

lemma set_py_take: "x \<in> set (py_take n xs) \<Longrightarrow> x \<in> set xs"
  by (auto simp: py_take_def dest: in_set_takeD split: if_splits)

lemma ranked_rows_core:
  assumes R: "recommend_from_scores md sims n ms cf df = Inr rs"
  shows "\<exists>es. rs = map (\<lambda>e. mk_recommendation (md ! fst e) (fst e) (snd e)) es
            \<and> (\<forall>e\<in>set es. fst e < length md)
            \<and> sorted_wrt (\<lambda>x y. snd y < snd x \<or> (snd x = snd y \<and> fst x < fst y)) es"
proof -
  let ?es = "List.enumerate 0 sims"
  let ?k = "\<lambda>e :: nat \<times> real. - snd e"
  let ?mk = "\<lambda>e. mk_recommendation (md ! fst e) (fst e) (snd e)"
  let ?kept = "filter (loop_keeps md ms cf df) ?es"
  let ?srt = "sort_key ?k ?kept"
  let ?out = "py_take n ?srt"
  have rs: "rs = py_take n (map ?mk ?srt)"
    by (rule recommend_from_scores_Inr(1)[OF R])
  have bnd: "fst e < length md" if "e \<in> set ?srt" for e
  proof -
    from that have "e \<in> set ?kept" by (simp only: set_sort)
    with recommend_from_scores_Inr(2)[OF R] show ?thesis by blast
  qed
  have "sorted_wrt (<) (map fst ?es)" by simp
  then have "sorted_wrt (\<lambda>a b. fst a < fst b) ?es" by (simp only: sorted_wrt_map)
  then have idx: "sorted_wrt (\<lambda>a b. fst a < fst b) ?kept" by (rule sorted_wrt_filter)
  have lex: "sorted_wrt (\<lambda>a b. ?k a < ?k b \<or> (?k a = ?k b \<and> fst a < fst b)) ?srt"
    using idx by (rule sort_key_lex)
  have rows: "sorted_wrt (\<lambda>x y. snd y < snd x \<or> (snd x = snd y \<and> fst x < fst y)) ?srt"
    by (rule sorted_wrt_mono_rel[OF _ lex]) auto
  have one: "rs = map ?mk ?out"
    unfolding rs by (rule py_take_map)
  have two: "\<forall>e\<in>set ?out. fst e < length md"
  proof
    fix e assume "e \<in> set ?out"
    then have "e \<in> set ?srt" by (rule set_py_take)
    then show "fst e < length md" by (rule bnd)
  qed
  have three: "sorted_wrt (\<lambda>x y. snd y < snd x \<or> (snd x = snd y \<and> fst x < fst y)) ?out"
    using rows by (rule sorted_wrt_py_take)
  show ?thesis
  proof (intro exI conjI)
    show "rs = map ?mk ?out" by (rule one)
    show "\<forall>e\<in>set ?out. fst e < length md" by (rule two)
    show "sorted_wrt (\<lambda>x y. snd y < snd x \<or> (snd x = snd y \<and> fst x < fst y)) ?out" by (rule three)
  qed
qed

text \<open>
  The row-order property tells the two orders of a tie apart: over the rows \<open>[a, b]\<close> with
  equal scores, the list with row 1 before row 0 is not the image of entries in row order.
\<close>

lemma reversed_ties_are_not_row_order:
  "\<not> (\<exists>es. [mk_recommendation ex_recipe_b 1 1, mk_recommendation ex_recipe_a 0 1] =
             map (\<lambda>e. mk_recommendation ([ex_recipe_a, ex_recipe_b] ! fst e) (fst e) (snd e)) es
         \<and> (\<forall>e\<in>set es. fst e < length [ex_recipe_a, ex_recipe_b])
         \<and> sorted_wrt (\<lambda>x y. snd y < snd x \<or> (snd x = snd y \<and> fst x < fst y)) es)"
proof
  let ?mk = "\<lambda>e :: nat \<times> real. mk_recommendation ([ex_recipe_a, ex_recipe_b] ! fst e) (fst e) (snd e)"
  assume "\<exists>es. [mk_recommendation ex_recipe_b 1 1, mk_recommendation ex_recipe_a 0 1] = map ?mk es
         \<and> (\<forall>e\<in>set es. fst e < length [ex_recipe_a, ex_recipe_b])
         \<and> sorted_wrt (\<lambda>x y. snd y < snd x \<or> (snd x = snd y \<and> fst x < fst y)) es"
  then obtain es where all: "[mk_recommendation ex_recipe_b 1 1, mk_recommendation ex_recipe_a 0 1] = map ?mk es
         \<and> (\<forall>e\<in>set es. fst e < length [ex_recipe_a, ex_recipe_b])
         \<and> sorted_wrt (\<lambda>x y. snd y < snd x \<or> (snd x = snd y \<and> fst x < fst y)) es" ..
  from all have m: "[mk_recommendation ex_recipe_b 1 1, mk_recommendation ex_recipe_a 0 1] = map ?mk es"
    by (rule conjunct1)
  from all have b: "\<forall>e\<in>set es. fst e < length [ex_recipe_a, ex_recipe_b]"
    by (rule conjunct1[OF conjunct2])
  from all have s: "sorted_wrt (\<lambda>x y. snd y < snd x \<or> (snd x = snd y \<and> fst x < fst y)) es"
    by (rule conjunct2[OF conjunct2])
  have "length (map ?mk es) = length [mk_recommendation ex_recipe_b 1 1, mk_recommendation ex_recipe_a 0 1]"
    by (rule arg_cong[OF m[symmetric]])
  then have len: "length es = Suc (Suc 0)" by simp
  then obtain e1 e2 where es: "es = [e1, e2]"
    by (metis length_0_conv length_Suc_conv)
  have ids: "map recipe_id_of [mk_recommendation ex_recipe_b 1 1, mk_recommendation ex_recipe_a 0 1]
               = map recipe_id_of (map ?mk es)"
    by (rule arg_cong[OF m])
  have scs: "map score_of [mk_recommendation ex_recipe_b 1 1, mk_recommendation ex_recipe_a 0 1]
               = map score_of (map ?mk es)"
    by (rule arg_cong[OF m])
  from ids have i1: "get_or (recipe_id_key ([ex_recipe_a, ex_recipe_b] ! fst e1)) (int (fst e1)) = 3"
    and i2: "get_or (recipe_id_key ([ex_recipe_a, ex_recipe_b] ! fst e2)) (int (fst e2)) = 5"
    by (simp_all add: es recipe_id_of_mk get_or_def ex_recipe_a_def ex_recipe_b_def)
  from scs have sc: "snd e1 = 1" "snd e2 = 1"
    by (simp_all add: es score_of_mk)
  from b have b1: "fst e1 < 2" and b2: "fst e2 < 2"
    by (simp_all add: es)
  have f1: "fst e1 \<noteq> 0"
  proof
    assume "fst e1 = 0"
    with i1 show False by (simp add: get_or_def ex_recipe_a_def)
  qed
  have f2: "fst e2 \<noteq> 1"
  proof
    assume "fst e2 = 1"
    with i2 show False by (simp add: get_or_def ex_recipe_b_def)
  qed
  from f1 f2 b1 b2 have "\<not> fst e1 < fst e2" by linarith
  moreover from s have "snd e2 < snd e1 \<or> (snd e1 = snd e2 \<and> fst e1 < fst e2)"
    by (simp add: es)
  ultimately show False using sc by simp
qed

text \<open>
  On a non-empty float array \<open>normalize_score_array\<close> returns 0.5 for every entry when the
  minimum equals the maximum, and otherwise the values \<open>(s - min) / (max - min)\<close>, all of
  them in \<open>[0, 1]\<close>.
\<close>

lemma normalize_score_array_float_min_max:
  assumes "scores \<noteq> []"
  shows "(Min (set scores) = Max (set scores) \<longrightarrow>
            normalize_score_array (FloatArray scores) = FloatArray (replicate (length scores) (1 / 2)))
       \<and> (Min (set scores) \<noteq> Max (set scores) \<longrightarrow>
            normalize_score_array (FloatArray scores) =
              FloatArray (map (\<lambda>s. (s - Min (set scores)) / (Max (set scores) - Min (set scores))) scores)
            \<and> (\<forall>s \<in> set scores.
                  0 \<le> (s - Min (set scores)) / (Max (set scores) - Min (set scores))
                  \<and> (s - Min (set scores)) / (Max (set scores) - Min (set scores)) \<le> 1))"
proof -
  let ?mn = "Min (set scores)" and ?mx = "Max (set scores)"
  have len: "length scores \<noteq> 0" using assms by simp
  have eq: "normalize_score_array (FloatArray scores) = FloatArray (replicate (length scores) (1 / 2))"
    if "?mn = ?mx"
    using len that by (simp add: Let_def map_replicate_const)
  have ne: "normalize_score_array (FloatArray scores) = FloatArray (map (\<lambda>s. (s - ?mn) / (?mx - ?mn)) scores)"
    if "?mn \<noteq> ?mx"
    using len that by (auto simp add: Let_def)
  have rng: "0 \<le> (s - ?mn) / (?mx - ?mn) \<and> (s - ?mn) / (?mx - ?mn) \<le> 1"
    if d: "?mn \<noteq> ?mx" and m: "s \<in> set scores" for s
  proof -
    have a: "?mn \<le> s" using m by simp
    have b: "s \<le> ?mx" using m by simp
    have p: "0 < ?mx - ?mn" using a b d by linarith
    have "0 \<le> s - ?mn" using a by simp
    then have l: "0 \<le> (s - ?mn) / (?mx - ?mn)" using p by (rule divide_nonneg_pos)
    have "s - ?mn \<le> ?mx - ?mn" using b by simp
    then have "(s - ?mn) / (?mx - ?mn) \<le> 1" using p by (simp add: divide_le_eq_1_pos)
    with l show ?thesis by simp
  qed
  show ?thesis
  proof (intro conjI impI)
    assume "?mn = ?mx"
    then show "normalize_score_array (FloatArray scores) = FloatArray (replicate (length scores) (1 / 2))"
      by (rule eq)
  next
    assume "?mn \<noteq> ?mx"
    then show "normalize_score_array (FloatArray scores) =
        FloatArray (map (\<lambda>s. (s - ?mn) / (?mx - ?mn)) scores)"
      by (rule ne)
  next
    assume d: "?mn \<noteq> ?mx"
    show "\<forall>s \<in> set scores. 0 \<le> (s - ?mn) / (?mx - ?mn) \<and> (s - ?mn) / (?mx - ?mn) \<le> 1"
    proof
      fix s assume "s \<in> set scores"
      with d show "0 \<le> (s - ?mn) / (?mx - ?mn) \<and> (s - ?mn) / (?mx - ?mn) \<le> 1" by (rule rng)
    qed
  qed
qed

lemma get_top_recommendations_cases:
  "(\<forall>n ms cf df. get_top_recommendations b q n ms cf df = Inr [])
   \<or> (\<forall>n ms cf df. isl (get_top_recommendations b q n ms cf df))
   \<or> (\<exists>md sims. loaded_metadata b = Inr md
         \<and> (\<forall>n ms cf df. get_top_recommendations b q n ms cf df = recommend_from_scores md sims n ms cf df))"
proof (cases b)
  case (TFIDF r)
  define comp where "comp = (case tfidf_loaded r of Some c \<Rightarrow> Inr c | None \<Rightarrow> tfidf_loader r)"
  have u: "tfidf_get_top_recommendations r q n ms cf df =
      (case comp of Inl e \<Rightarrow> Inl e
       | Inr c \<Rightarrow> (case tfidf_compute_similarity_scores c q of Inl e \<Rightarrow> Inl e
                   | Inr sims \<Rightarrow> recommend_from_scores (tfidf_recipe_metadata c) sims n ms cf df))" for n ms cf df
    by (simp add: comp_def tfidf_get_top_recommendations_def tfidf_load_models_def split: option.splits sum.splits)
  have m: "loaded_metadata b = (case comp of Inl e \<Rightarrow> Inl e | Inr c \<Rightarrow> Inr (tfidf_recipe_metadata c))"
    by (simp add: TFIDF comp_def split: option.splits sum.splits)
  show ?thesis
  proof (cases comp)
    case (Inl e)
    then have "\<forall>n ms cf df. isl (get_top_recommendations b q n ms cf df)"
      by (simp add: TFIDF u)
    then show ?thesis by blast
  next
    case (Inr c)
    show ?thesis
    proof (cases "tfidf_compute_similarity_scores c q")
      case (Inl e)
      then have "\<forall>n ms cf df. isl (get_top_recommendations b q n ms cf df)"
        by (simp add: TFIDF u Inr)
      then show ?thesis by blast
    next
      case sims: (Inr sims)
      have "loaded_metadata b = Inr (tfidf_recipe_metadata c)" by (simp add: m Inr)
      moreover have "\<forall>n ms cf df. get_top_recommendations b q n ms cf df =
            recommend_from_scores (tfidf_recipe_metadata c) sims n ms cf df"
        by (simp add: TFIDF u Inr sims)
      ultimately show ?thesis by blast
    qed
  qed
next
  case (Embedding r)
  define comp where "comp = (case embedding_loaded r of Some c \<Rightarrow> Inr c | None \<Rightarrow> embedding_loader r)"
  have u: "embedding_get_top_recommendations r q n ms cf df =
      (case comp of Inl e \<Rightarrow> Inl e
       | Inr c \<Rightarrow> if preprocess_ingredients '' '' q = [] then Inr []
                  else (case embedding_compute_similarity_scores c q of Inl e \<Rightarrow> Inl e
                   | Inr sims \<Rightarrow> recommend_from_scores (embedding_recipe_metadata c) sims n ms cf df))" for n ms cf df
    by (simp add: comp_def embedding_get_top_recommendations_def embedding_load_models_def split: option.splits sum.splits)
  have m: "loaded_metadata b = (case comp of Inl e \<Rightarrow> Inl e | Inr c \<Rightarrow> Inr (embedding_recipe_metadata c))"
    by (simp add: Embedding comp_def split: option.splits sum.splits)
  show ?thesis
  proof (cases comp)
    case (Inl e)
    then have "\<forall>n ms cf df. isl (get_top_recommendations b q n ms cf df)"
      by (simp add: Embedding u)
    then show ?thesis by blast
  next
    case (Inr c)
    show ?thesis
    proof (cases "preprocess_ingredients '' '' q = []")
      case True
      then have "\<forall>n ms cf df. get_top_recommendations b q n ms cf df = Inr []"
        by (simp add: Embedding u Inr)
      then show ?thesis by blast
    next
      case False
      show ?thesis
      proof (cases "embedding_compute_similarity_scores c q")
        case (Inl e)
        then have "\<forall>n ms cf df. isl (get_top_recommendations b q n ms cf df)"
          by (simp add: Embedding u Inr False)
        then show ?thesis by blast
      next
        case sims: (Inr sims)
        have "loaded_metadata b = Inr (embedding_recipe_metadata c)" by (simp add: m Inr)
        moreover have "\<forall>n ms cf df. get_top_recommendations b q n ms cf df =
              recommend_from_scores (embedding_recipe_metadata c) sims n ms cf df"
          by (simp add: Embedding u Inr False sims)
        ultimately show ?thesis by blast
      qed
    qed
  qed
qed

section \<open>Properties of the ranking, the fusion and the normalization\<close>

text \<open>
  C4, as the code has it.  When both backends are unavailable (absent, or the call raises),
  \<open>get_recommendations\<close> returns the empty list and raises nothing, and \<open>combine_scores\<close>
  without scores returns the empty score array with both availability flags false.
\<close>

theorem both_backends_unavailable_returns_empty:
  assumes "tfidf_unavailable self q cf df n" and "embedding_unavailable self q cf df n"
  shows "get_recommendations self q cf df n = Inr []
     \<and> combine_scores sc None None =
         Inr (FloatArray [], \<lparr>tfidf_available = False, embedding_available = False,
                   normalization_applied = normalize_scores sc,
                   weights = (self_tfidf_weight sc, self_embedding_weight sc),
                   fallback_mode = None, combination_method = None\<rparr>)"
proof -
  have t: "tfidf_results_of self q cf df n = []"
    using assms(1) by (auto simp: tfidf_results_of_def tfidf_unavailable_def split: option.splits sum.splits)
  have e: "embedding_results_of self q cf df n = []"
    using assms(2) by (auto simp: embedding_results_of_def embedding_unavailable_def split: option.splits sum.splits)
  have "get_recommendations self q cf df n = Inr []"
    by (simp add: get_recommendations_def t e list_sort_desc_def py_take_def)
  moreover have "combine_scores sc None None =
         Inr (FloatArray [], \<lparr>tfidf_available = False, embedding_available = False,
                   normalization_applied = normalize_scores sc,
                   weights = (self_tfidf_weight sc, self_embedding_weight sc),
                   fallback_mode = None, combination_method = None\<rparr>)"
    by (simp add: combine_scores_def)
  ultimately show ?thesis by simp
qed

text \<open>
  C4, witness: a TF-IDF recommender whose model files cannot be loaded, and no embedding
  recommender.
\<close>

theorem both_backends_unavailable_returns_empty_witness:
  "tfidf_unavailable ex_hybrid_none [''chicken''] None None 10
   \<and> embedding_unavailable ex_hybrid_none [''chicken''] None None 10
   \<and> get_recommendations ex_hybrid_none [''chicken''] None None 10 = Inr []"
proof -
  have h1: "tfidf_unavailable ex_hybrid_none [''chicken''] None None 10" by code_simp
  have h2: "embedding_unavailable ex_hybrid_none [''chicken''] None None 10" by code_simp
  from both_backends_unavailable_returns_empty[OF h1 h2] h1 h2 show ?thesis by simp
qed

text \<open>
  C4, counterexample to the claim as stated: with both backends unavailable the call
  returns \<open>Inr []\<close>; no \<open>ServiceUnavailable\<close> is raised.
\<close>

theorem both_backends_unavailable_counterexample:
  "get_recommendations ex_hybrid_none [''chicken''] None None 10 = Inr []
   \<and> get_recommendations ex_hybrid_none [''chicken''] None None 10 \<noteq> Inl ServiceUnavailable
   \<and> combine_scores (create_hybrid_scorer settings None None) None None \<noteq> Inl ServiceUnavailable
   \<and> fst (projr (combine_scores (create_hybrid_scorer settings None None) None None)) = FloatArray []"
  by code_simp

text \<open>
  C6, as the code has it.  Every candidate list that a recommender returns is in descending
  score order.  The sort is stable and has no second key: the list is the image of
  (row, score) entries in which, for every corpus, equal scores keep ascending corpus row
  order.  So equal scores are in ascending recipe id order when the recipe ids increase
  along the rows.
\<close>

theorem candidates_sorted_desc_ties_in_row_order:
  assumes R: "get_top_recommendations b q n ms cf df = Inr rs"
      and M: "loaded_metadata b = Inr md"
  shows "sorted_wrt (\<lambda>x y. score_of y \<le> score_of x) rs
       \<and> (\<exists>es. rs = map (\<lambda>e. mk_recommendation (md ! fst e) (fst e) (snd e)) es
               \<and> (\<forall>e\<in>set es. fst e < length md)
               \<and> sorted_wrt (\<lambda>x y. snd y < snd x \<or> (snd x = snd y \<and> fst x < fst y)) es)
       \<and> (sorted_wrt (<) (row_ids md) \<longrightarrow> ranked_with_id_ties rs)"
proof -
  from get_top_recommendations_cases[of b q]
  consider (empty) "\<forall>n ms cf df. get_top_recommendations b q n ms cf df = Inr []"
    | (err) "\<forall>n ms cf df. isl (get_top_recommendations b q n ms cf df)"
    | (scores) md' sims where "loaded_metadata b = Inr md'"
        "\<forall>n ms cf df. get_top_recommendations b q n ms cf df = recommend_from_scores md' sims n ms cf df"
    by blast
  then show ?thesis
  proof cases
    case empty
    with R have "rs = []" by simp
    then show ?thesis by (simp add: ranked_with_id_ties_def)
  next
    case err
    then have "isl (get_top_recommendations b q n ms cf df)" by blast
    with R show ?thesis by simp
  next
    case scores
    from scores(1) M have "md' = md" by simp
    with scores(2) R have r: "recommend_from_scores md sims n ms cf df = Inr rs" by simp
    have a: "sorted_wrt (\<lambda>x y. score_of y \<le> score_of x) rs"
      using ranked_core[OF r] by (rule conjunct1)
    have c: "sorted_wrt (<) (row_ids md) \<longrightarrow> ranked_with_id_ties rs"
      using ranked_core[OF r] by (rule conjunct2)
    have b: "\<exists>es. rs = map (\<lambda>e. mk_recommendation (md ! fst e) (fst e) (snd e)) es
               \<and> (\<forall>e\<in>set es. fst e < length md)
               \<and> sorted_wrt (\<lambda>x y. snd y < snd x \<or> (snd x = snd y \<and> fst x < fst y)) es"
      by (rule ranked_rows_core[OF r])
    show ?thesis by (rule conjI[OF a conjI[OF b c]])
  qed
qed

text \<open>
  C6, witness: the rows \<open>[b, a]\<close> with the ids 3 and 5 and equal scores; the result is the
  image of the entries (row 0, score 1), (row 1, score 1).
\<close>

theorem candidates_sorted_desc_ties_in_row_order_witness:
  "get_top_recommendations (TFIDF ex_tfidf_ordered) [''chicken''] 10 0 None None =
     Inr [mk_recommendation ex_recipe_b 0 1, mk_recommendation ex_recipe_a 1 1]
   \<and> loaded_metadata (TFIDF ex_tfidf_ordered) = Inr [ex_recipe_b, ex_recipe_a]
   \<and> sorted_wrt (<) (row_ids [ex_recipe_b, ex_recipe_a])
   \<and> sorted_wrt (\<lambda>x y. score_of y \<le> score_of x)
        [mk_recommendation ex_recipe_b 0 1, mk_recommendation ex_recipe_a 1 1]
   \<and> ranked_with_id_ties [mk_recommendation ex_recipe_b 0 1, mk_recommendation ex_recipe_a 1 1]"
proof -
  have r: "get_top_recommendations (TFIDF ex_tfidf_ordered) [''chicken''] 10 0 None None =
      Inr [mk_recommendation ex_recipe_b 0 1, mk_recommendation ex_recipe_a 1 1]"
    by code_simp
  have m: "loaded_metadata (TFIDF ex_tfidf_ordered) = Inr [ex_recipe_b, ex_recipe_a]"
    by code_simp
  have s: "sorted_wrt (<) (row_ids [ex_recipe_b, ex_recipe_a])"
    by code_simp
  from candidates_sorted_desc_ties_in_row_order[OF r m] r m s show ?thesis by simp
qed

text \<open>
  C6, counterexample to the claim as stated: the rows \<open>[a, b]\<close> with the ids 5 and 3 and
  equal scores are returned in row order, the larger id first.
\<close>

theorem equal_scores_keep_row_order_counterexample:
  "get_top_recommendations (TFIDF ex_tfidf_tie) [''chicken''] 10 0 None None = Inr [mk_recommendation ex_recipe_a 0 1, mk_recommendation ex_recipe_b 1 1]
   \<and> \<not> ranked_with_id_ties [mk_recommendation ex_recipe_a 0 1, mk_recommendation ex_recipe_b 1 1]"
  by code_simp

text \<open>
  C8.  An all-equal score array of integer element type: \<open>np.full_like(scores, 0.5)\<close> keeps
  the integer type, so every entry of the result is 0, not 0.5.  The same scores as a float
  array give 0.5 for every entry.
\<close>

theorem all_equal_integer_scores_normalize_to_zero:
  "normalize_score_array (IntArray [2, 2]) = IntArray [0, 0]
   \<and> normalize_score_array (FloatArray [2, 2]) = FloatArray [1 / 2, 1 / 2]
   \<and> normalize_score_array (IntArray [1, 3, 2]) = FloatArray [0, 1, 1 / 2]"
  by simp

text \<open>
  C9, as the code has it.  The filters are applied before the cut to \<open>top_n\<close>, so a filtered
  result list is a subsequence of the unfiltered ranking before its cut: of the unfiltered
  result list whenever that list holds fewer than its \<open>top_n\<close> entries.
\<close>

theorem filtered_result_subseq_of_uncut_unfiltered:
  assumes F: "get_top_recommendations b q n ms cf df = Inr fs"
      and U: "get_top_recommendations b q m ms None None = Inr us"
      and L: "int (length us) < m"
  shows "subseq fs us"
proof -
  from get_top_recommendations_cases[of b q]
  consider (empty) "\<forall>n ms cf df. get_top_recommendations b q n ms cf df = Inr []"
    | (err) "\<forall>n ms cf df. isl (get_top_recommendations b q n ms cf df)"
    | (scores) md sims where "loaded_metadata b = Inr md"
        "\<forall>n ms cf df. get_top_recommendations b q n ms cf df = recommend_from_scores md sims n ms cf df"
    by blast
  then show ?thesis
  proof cases
    case empty
    with F U show ?thesis by simp
  next
    case err
    then have "isl (get_top_recommendations b q n ms cf df)" by blast
    with F show ?thesis by simp
  next
    case scores
    from scores(2) F have f: "recommend_from_scores md sims n ms cf df = Inr fs" by simp
    from scores(2) U have u: "recommend_from_scores md sims m ms None None = Inr us" by simp
    from f u L show ?thesis by (rule filtered_subseq_core)
  qed
qed

text \<open>
  C9, witness: \<open>top_n = 10\<close> over two recipes, with the cuisine filter \<open>Italian\<close>.
\<close>

theorem filtered_result_subseq_of_uncut_unfiltered_witness:
  "get_top_recommendations (TFIDF ex_tfidf) [''chicken''] 10 0 (Some ''Italian'') None = Inr [mk_recommendation ex_recipe_b 1 (1 / 2)]
   \<and> get_top_recommendations (TFIDF ex_tfidf) [''chicken''] 10 0 None None = Inr [mk_recommendation ex_recipe_a 0 1, mk_recommendation ex_recipe_b 1 (1 / 2)]
   \<and> int (length [mk_recommendation ex_recipe_a 0 1, mk_recommendation ex_recipe_b 1 (1 / 2)]) < 10
   \<and> subseq [mk_recommendation ex_recipe_b 1 (1 / 2)] [mk_recommendation ex_recipe_a 0 1, mk_recommendation ex_recipe_b 1 (1 / 2)]"
proof -
  have f: "get_top_recommendations (TFIDF ex_tfidf) [''chicken''] 10 0 (Some ''Italian'') None = Inr [mk_recommendation ex_recipe_b 1 (1 / 2)]"
    by code_simp
  have u: "get_top_recommendations (TFIDF ex_tfidf) [''chicken''] 10 0 None None = Inr [mk_recommendation ex_recipe_a 0 1, mk_recommendation ex_recipe_b 1 (1 / 2)]"
    by code_simp
  have l: "int (length [mk_recommendation ex_recipe_a 0 1, mk_recommendation ex_recipe_b 1 (1 / 2)]) < 10"
    by simp
  from filtered_result_subseq_of_uncut_unfiltered[OF f u l] f u l show ?thesis by simp
qed

text \<open>
  C9, counterexample to the claim as stated: with \<open>top_n = 1\<close> the unfiltered result is the
  French recipe alone, and the result for the cuisine filter \<open>Italian\<close> is the Italian recipe,
  which the unfiltered result does not contain.
\<close>

theorem filtered_result_not_subseq_counterexample:
  "get_top_recommendations (TFIDF ex_tfidf) [''chicken''] 1 0 (Some ''Italian'') None = Inr [mk_recommendation ex_recipe_b 1 (1 / 2)]
   \<and> get_top_recommendations (TFIDF ex_tfidf) [''chicken''] 1 0 None None = Inr [mk_recommendation ex_recipe_a 0 1]
   \<and> \<not> subseq [mk_recommendation ex_recipe_b 1 (1 / 2)] [mk_recommendation ex_recipe_a 0 1]"
  by code_simp



end
